theory Spec2Isabelle
  imports Main
begin

section \<open>Smartpix backend: identifiers, errors, documents\<close>

text \<open>
  The backend is a set of FastAPI route handlers over three MongoDB collections
  (users, images, edits) and a local directory tree (\<open>static/uploads\<close>,
  \<open>static/processed\<close>). Every handler is modelled as a function from the request
  and the current state to a result and the state it leaves. What the environment
  decides for one request (the clock, the identifier the driver generates, whether
  a write to disk fails) is an explicit argument of the handler.

  Times are seconds since the epoch, as the token library reads them.
\<close>

type_synonym timestamp = int
type_synonym bytes = "nat list"

subsection \<open>bson.ObjectId\<close>

text \<open>
  \<open>ObjectId(s)\<close> takes a string of 24 characters and hands it to
  \<open>bytes.fromhex\<close>; any other length, and any string \<open>fromhex\<close> refuses, raises
  \<open>InvalidId\<close>. \<open>fromhex\<close> skips ASCII white space between bytes and wants two
  hexadecimal digits, side by side, for each byte. So the identifier built from 24
  digits has twelve bytes, and one built from fewer digits and white space has
  fewer. Two identifiers are equal when their bytes are, and \<open>str\<close> prints the
  bytes as lower-case hexadecimal: an identifier is kept here as that print, two
  digits for each byte.
\<close>

datatype objectid = Oid string

definition is_space :: "char \<Rightarrow> bool" where
  "is_space c = (c \<in> set [CHR '' '', CHR 0x09, CHR 0x0A, CHR 0x0B, CHR 0x0C, CHR 0x0D])"

definition hexdigit :: "char \<Rightarrow> bool" where
  "hexdigit c = (c \<in> set ''0123456789abcdefABCDEF'')"

definition lower_hex :: "char \<Rightarrow> char" where
  "lower_hex c =
     (if c = CHR ''A'' then CHR ''a'' else if c = CHR ''B'' then CHR ''b''
      else if c = CHR ''C'' then CHR ''c'' else if c = CHR ''D'' then CHR ''d''
      else if c = CHR ''E'' then CHR ''e'' else if c = CHR ''F'' then CHR ''f''
      else c)"

fun fromhex :: "string \<Rightarrow> string option" where
  "fromhex [] = Some []"
| "fromhex [c] = (if is_space c then Some [] else None)"
| "fromhex (c # d # cs) =
     (if is_space c then fromhex (d # cs)
      else if hexdigit c \<and> hexdigit d
        then map_option (\<lambda>r. lower_hex c # lower_hex d # r) (fromhex cs)
      else None)"

definition ObjectId :: "string \<Rightarrow> objectid option" where
  "ObjectId s = (if length s = 24 then map_option Oid (fromhex s) else None)"

fun str_oid :: "objectid \<Rightarrow> string" where
  "str_oid (Oid h) = h"

subsection \<open>Errors\<close>

text \<open>
  \<open>HTTPException status detail\<close> is the exception the handlers raise themselves.
  The other constructors are exceptions that leave a handler uncaught:
  \<open>ValueError\<close> from \<open>process_image\<close>, \<open>FileNotFoundError\<close> and \<open>OSError\<close>
  from the file system, \<open>ServiceError\<close> from the image API client,
  \<open>LibraryError\<close> from the password hashing library, \<open>OverflowError\<close> from the
  encoding of a document for the database.
\<close>

datatype error =
    HTTPException nat string
  | ValueError string
  | FileNotFoundError string
  | OSError string
  | ServiceError string
  | LibraryError string
  | OverflowError string

subsection \<open>Documents of the three collections\<close>

record user_doc =
  user_oid :: objectid
  user_email :: string
  user_username :: string
  user_password_hash :: string
  user_created_at :: timestamp

record image_doc =
  img_oid :: objectid
  img_user_id :: objectid
  img_original_url :: string
  img_filename :: string
  img_uploaded_at :: timestamp
  img_tags :: "string list"

record edit_doc =
  edit_oid :: objectid
  edit_image_id :: objectid
  edit_edited_url :: string
  edit_prompt :: string
  edit_edited_at :: timestamp
  edit_user_id :: objectid
  edit_edit_type :: string
  edit_intensity :: int

subsection \<open>Collection operations\<close>

text \<open>
  A collection is the list of its documents in insertion order. \<open>find_one\<close> is the
  first match, \<open>delete_one\<close> removes the first match, \<open>delete_many\<close> every match,
  \<open>insert_one\<close> appends.
\<close>

definition find_one :: "('a \<Rightarrow> bool) \<Rightarrow> 'a list \<Rightarrow> 'a option" where
  "find_one P xs = List.find P xs"

fun delete_one :: "('a \<Rightarrow> bool) \<Rightarrow> 'a list \<Rightarrow> 'a list" where
  "delete_one P [] = []"
| "delete_one P (x # xs) = (if P x then xs else x # delete_one P xs)"

definition delete_many :: "('a \<Rightarrow> bool) \<Rightarrow> 'a list \<Rightarrow> 'a list" where
  "delete_many P xs = filter (\<lambda>x. \<not> P x) xs"

definition insert_one :: "'a \<Rightarrow> 'a list \<Rightarrow> 'a list" where
  "insert_one d xs = xs @ [d]"

subsection \<open>Paths and the file system\<close>

text \<open>
  \<open>os.path.join\<close> on POSIX: an absolute second part replaces the first.
\<close>

definition path_join :: "string \<Rightarrow> string \<Rightarrow> string" where
  "path_join a b =
     (if b \<noteq> [] \<and> hd b = CHR ''/'' then b
      else if a = [] \<or> last a = CHR ''/'' then a @ b
      else a @ ''/'' @ b)"

definition STATIC_DIR :: string where
  "STATIC_DIR = ''static''"

definition UPLOAD_DIR :: string where
  "UPLOAD_DIR = path_join STATIC_DIR ''uploads''"

definition EDIT_DIR :: string where
  "EDIT_DIR = path_join STATIC_DIR ''processed''"

text \<open>
  The file a path names. The operating system walks the path component by
  component: empty components and \<open>.\<close> stay in place, \<open>..\<close> steps back to the parent
  directory. \<open>resolve\<close> gives the components that remain, together with whether the
  path starts at the root (a relative path starts at the working directory of the
  process). Symbolic links are not modelled, and the two directories the handlers
  climb out of, \<open>static/uploads\<close> and \<open>static/processed\<close>, exist: the modules
  create them when they are loaded.
\<close>

fun split_path :: "string \<Rightarrow> string \<Rightarrow> string list" where
  "split_path acc [] = [rev acc]"
| "split_path acc (c # cs) =
     (if c = CHR ''/'' then rev acc # split_path [] cs else split_path (c # acc) cs)"

definition walk :: "bool \<Rightarrow> string list \<Rightarrow> string \<Rightarrow> string list" where
  "walk is_abs stack c =
     (if c = [] \<or> c = ''.'' then stack
      else if c = ''..'' then
        (case stack of
           [] \<Rightarrow> (if is_abs then [] else [''..''])
         | t # r \<Rightarrow> (if t = ''..'' then ''..'' # stack else r))
      else c # stack)"

type_synonym location = "bool \<times> string list"

definition resolve :: "string \<Rightarrow> location" where
  "resolve p =
     (let is_abs = (p \<noteq> [] \<and> hd p = CHR ''/'')
      in (is_abs, rev (foldl (walk is_abs) [] (split_path [] p))))"

type_synonym filesystem = "location \<rightharpoonup> bytes"

record state =
  users :: "user_doc list"
  images :: "image_doc list"
  edits :: "edit_doc list"
  files :: filesystem

section \<open>Libraries the handlers call\<close>

subsection \<open>passlib's bcrypt\<close>

text \<open>
  \<open>utils/security.py\<close> wraps \<open>bcrypt.hash\<close> and \<open>bcrypt.verify\<close>. The two library
  functions are arguments of the model: \<open>bcrypt_hash salt password\<close> (the library
  draws the salt itself; here it is the value drawn) and
  \<open>bcrypt_verify password hashed\<close>. Either may raise instead of returning (the
  library does on a password with a NUL byte, and on a stored string that is no
  hash): \<open>Inl\<close> carries the text of the exception, and the wrappers let it pass.
\<close>

type_synonym bcrypt_hash_fun = "string \<Rightarrow> string \<Rightarrow> string + string"
type_synonym bcrypt_verify_fun = "string \<Rightarrow> string \<Rightarrow> string + bool"

definition hash_password :: "bcrypt_hash_fun \<Rightarrow> string \<Rightarrow> string \<Rightarrow> string + string" where
  "hash_password bcrypt_hash salt password = bcrypt_hash salt password"

definition verify_password :: "bcrypt_verify_fun \<Rightarrow> string \<Rightarrow> string \<Rightarrow> string + bool" where
  "verify_password bcrypt_verify plain_password hashed = bcrypt_verify plain_password hashed"

subsection \<open>python-jose's jwt\<close>

text \<open>
  Modelled from the spec: the token service (\<open>jose.jwt\<close>, a third-party library
  that is not among the sources) is "an opaque sign/verify service for session
  tokens carrying a subject identifier and expiry"; verification fails on a
  malformed token, a bad signature or a passed expiry. A token is therefore either
  a payload signed under a key or a string that is no token at all, and decoding
  checks the key and then the expiry (\<open>exp < now\<close> is expired, as the library
  compares them).
\<close>

record payload =
  jwt_sub :: "string option"
  jwt_exp :: "timestamp option"

datatype token = Signed string payload | Malformed string

datatype jwt_error = JWTError string

definition jwt_encode :: "payload \<Rightarrow> string \<Rightarrow> token" where
  "jwt_encode claims secret = Signed secret claims"

definition jwt_decode :: "token \<Rightarrow> string \<Rightarrow> timestamp \<Rightarrow> jwt_error + payload" where
  "jwt_decode tok secret now =
     (case tok of
        Malformed _ \<Rightarrow> Inl (JWTError ''Error decoding token headers.'')
      | Signed k claims \<Rightarrow>
          if k \<noteq> secret then Inl (JWTError ''Signature verification failed.'')
          else (case jwt_exp claims of
                  None \<Rightarrow> Inr claims
                | Some e \<Rightarrow>
                    if e < now then Inl (JWTError ''Signature has expired.'')
                    else Inr claims))"

section \<open>auth/signup.py and auth/login.py\<close>

text \<open>
  \<open>SECRET_KEY\<close> is the signing secret the modules read from the environment when
  they are loaded; the handlers below are those of a deployment in which it is set.
\<close>

definition ACCESS_TOKEN_EXPIRE_MINUTES :: int where
  "ACCESS_TOKEN_EXPIRE_MINUTES = 60 * 24 * 7"

record auth_request =
  req_email :: string
  req_password :: string

record auth_response =
  resp_email :: string
  resp_id :: string
  resp_token :: token

text \<open>
  What one signup request takes from its environment: the salt bcrypt draws, the
  two readings of the clock (for \<open>created_at\<close> and for the token's expiry) and the
  identifier the driver gives the inserted document.
\<close>

record signup_env =
  su_salt :: string
  su_created_now :: timestamp
  su_inserted_id :: objectid
  su_token_now :: timestamp

definition signup ::
  "bcrypt_hash_fun \<Rightarrow> string \<Rightarrow> signup_env \<Rightarrow> auth_request \<Rightarrow> state
     \<Rightarrow> (error + auth_response) \<times> state" where
  "signup bcrypt_hash SECRET_KEY env data s =
     (case find_one (\<lambda>u. user_email u = req_email data) (users s) of
        Some existing \<Rightarrow> (Inl (HTTPException 400 ''Email already registered''), s)
      | None \<Rightarrow>
      (case hash_password bcrypt_hash (su_salt env) (req_password data) of
        Inl e \<Rightarrow> (Inl (LibraryError e), s)
      | Inr hashed \<Rightarrow>
          let user = \<lparr> user_oid = su_inserted_id env,
                       user_email = req_email data,
                       user_username = takeWhile (\<lambda>c. c \<noteq> CHR ''@'') (req_email data),
                       user_password_hash = hashed,
                       user_created_at = su_created_now env \<rparr>;
              user_id = str_oid (su_inserted_id env);
              token_payload = \<lparr> jwt_sub = Some user_id,
                                jwt_exp = Some (su_token_now env + 60 * ACCESS_TOKEN_EXPIRE_MINUTES) \<rparr>;
              tok = jwt_encode token_payload SECRET_KEY
          in (Inr \<lparr> resp_email = req_email data, resp_id = user_id, resp_token = tok \<rparr>,
              s\<lparr> users := insert_one user (users s) \<rparr>)))"

record login_form =
  form_username :: string
  form_password :: string

definition login ::
  "bcrypt_verify_fun \<Rightarrow> string \<Rightarrow> timestamp \<Rightarrow> login_form \<Rightarrow> state
     \<Rightarrow> error + auth_response" where
  "login bcrypt_verify SECRET_KEY now form_data s =
     (case find_one (\<lambda>u. user_email u = form_username form_data) (users s) of
        None \<Rightarrow> Inl (HTTPException 401 ''Invalid email or password'')
      | Some user \<Rightarrow>
      (case verify_password bcrypt_verify (form_password form_data) (user_password_hash user) of
        Inl e \<Rightarrow> Inl (LibraryError e)
      | Inr matches \<Rightarrow>
          if \<not> matches
          then Inl (HTTPException 401 ''Invalid email or password'')
          else
            let user_id = str_oid (user_oid user);
                claims = \<lparr> jwt_sub = Some user_id,
                         jwt_exp = Some (now + 60 * ACCESS_TOKEN_EXPIRE_MINUTES) \<rparr>;
                tok = jwt_encode claims SECRET_KEY
            in Inr \<lparr> resp_email = user_email user, resp_id = user_id, resp_token = tok \<rparr>))"

text \<open>
  \<open>get_current_user\<close> of \<open>api/dashboard.py\<close>, the dependency of the protected
  routes: a missing or empty \<open>sub\<close> is refused (\<open>if not user_id\<close>).
\<close>

definition get_current_user :: "string \<Rightarrow> timestamp \<Rightarrow> token \<Rightarrow> error + string" where
  "get_current_user SECRET_KEY now tok =
     (case jwt_decode tok SECRET_KEY now of
        Inl e \<Rightarrow> Inl (HTTPException 401 ''Invalid token'')
      | Inr claims \<Rightarrow>
          (case jwt_sub claims of
             None \<Rightarrow> Inl (HTTPException 401 ''Invalid token payload'')
           | Some user_id \<Rightarrow>
               if user_id = [] then Inl (HTTPException 401 ''Invalid token payload'')
               else Inr user_id))"

section \<open>Writing and removing files\<close>

text \<open>
  A write that fails raises with a text of its own. \<open>left_behind\<close> is what the
  failed write leaves at the path: nothing changed when \<open>open\<close> itself failed, a
  truncated file when the copy failed after it.
\<close>

record fault =
  exn_text :: string
  left_behind :: "bytes option"

definition write_file ::
  "fault option \<Rightarrow> string \<Rightarrow> bytes \<Rightarrow> filesystem \<Rightarrow> string option \<times> filesystem" where
  "write_file flt path data fs =
     (case flt of
        None \<Rightarrow> (None, fs(resolve path \<mapsto> data))
      | Some f \<Rightarrow>
          (Some (exn_text f),
           (case left_behind f of None \<Rightarrow> fs | Some b \<Rightarrow> fs(resolve path \<mapsto> b))))"

text \<open>
  \<open>os.remove\<close>: \<open>FileNotFoundError\<close> when nothing is there; any other failure
  (a directory, a permission) is the environment's and carries its text.
\<close>

definition os_remove :: "string option \<Rightarrow> string \<Rightarrow> filesystem \<Rightarrow> error option \<times> filesystem" where
  "os_remove flt path fs =
     (case flt of
        Some e \<Rightarrow> (Some (OSError e), fs)
      | None \<Rightarrow>
          (case fs (resolve path) of
             None \<Rightarrow> (Some (FileNotFoundError path), fs)
           | Some old \<Rightarrow> (None, fs(resolve path := None))))"

section \<open>utils/image\_ai.py\<close>

text \<open>
  The keys of the \<open>prompts\<close> dictionary. The prompt texts themselves are looked up
  and never passed on, so only the keys decide anything.
\<close>

definition prompts :: "string list" where
  "prompts = [''enhance'', ''restore'', ''retouch'', ''style'', ''background'']"

text \<open>
  The image API is the environment's: \<open>client_fault\<close> is the failure of building
  the client, \<open>service\<close> maps the bytes sent to the bytes downloaded or to the text
  of the failure, \<open>out_fault\<close> is the failure of writing the result.
\<close>

record image_api =
  client_fault :: "string option"
  service :: "bytes \<Rightarrow> string + bytes"
  out_fault :: "fault option"

definition process_image ::
  "image_api \<Rightarrow> string \<Rightarrow> string \<Rightarrow> string \<Rightarrow> int \<Rightarrow> filesystem
     \<Rightarrow> (error + unit) \<times> filesystem" where
  "process_image api input_path output_path edit_type intensity fs =
     (if edit_type \<notin> set prompts
      then (Inl (ValueError (''Unsupported edit_type: '' @ edit_type)), fs)
      else
        (case client_fault api of
           Some e \<Rightarrow> (Inl (ServiceError e), fs)
         | None \<Rightarrow>
             (case fs (resolve input_path) of
                None \<Rightarrow> (Inl (FileNotFoundError input_path), fs)
              | Some image_bytes \<Rightarrow>
                  (case service api image_bytes of
                     Inl e \<Rightarrow> (Inl (ServiceError e), fs)
                   | Inr img_data \<Rightarrow>
                       (case write_file (out_fault api) output_path img_data fs of
                          (Some e, fs') \<Rightarrow> (Inl (OSError e), fs')
                        | (None, fs') \<Rightarrow> (Inr (), fs'))))))"

section \<open>api/editor.py\<close>

text \<open>
  The driver encodes an integer of a document in at most eight bytes and raises
  \<open>OverflowError\<close> on one that does not fit. Of the documents written here only the
  edit document holds an integer the client chooses, \<open>intensity\<close>.
\<close>

definition fits_int64 :: "int \<Rightarrow> bool" where
  "fits_int64 i = (- (2 ^ 63) \<le> i \<and> i < 2 ^ 63)"

text \<open>Python's \<open>str\<close> of an integer, for the f-string of the prompt.\<close>

fun str_nat :: "nat \<Rightarrow> string" where
  "str_nat n =
     (if n < 10 then [''0123456789'' ! n]
      else str_nat (n div 10) @ [''0123456789'' ! (n mod 10)])"

declare str_nat.simps [simp del]

definition str_int :: "int \<Rightarrow> string" where
  "str_int i = (if i < 0 then ''-'' @ str_nat (nat (- i)) else str_nat (nat i))"

record upload_file =
  uf_filename :: string
  uf_content :: bytes

record upload_env =
  up_now :: timestamp
  up_inserted_id :: objectid
  up_write_fault :: "fault option"
  up_insert_fault :: "string option"

record upload_result =
  res_image_id :: string
  res_url :: string

definition upload_image ::
  "upload_env \<Rightarrow> upload_file \<Rightarrow> string \<Rightarrow> state \<Rightarrow> (error + upload_result) \<times> state" where
  "upload_image env file user_id s =
     (case ObjectId user_id of
        None \<Rightarrow> (Inl (HTTPException 400 ''Invalid user ID''), s)
      | Some user_object_id \<Rightarrow>
          let filename = uf_filename file;
              upload_path = path_join UPLOAD_DIR filename
          in (case write_file (up_write_fault env) upload_path (uf_content file) (files s) of
                (Some e, fs') \<Rightarrow>
                  (Inl (HTTPException 500 (''File save failed: '' @ e)), s\<lparr> files := fs' \<rparr>)
              | (None, fs') \<Rightarrow>
                  let image_doc = \<lparr> img_oid = up_inserted_id env,
                                    img_user_id = user_object_id,
                                    img_original_url = ''/static/uploads/'' @ filename,
                                    img_filename = filename,
                                    img_uploaded_at = up_now env,
                                    img_tags = [] \<rparr>
                  in (case up_insert_fault env of
                        Some e \<Rightarrow>
                          (Inl (HTTPException 500 (''Insert failed: '' @ e)), s\<lparr> files := fs' \<rparr>)
                      | None \<Rightarrow>
                          (Inr \<lparr> res_image_id = str_oid (up_inserted_id env),
                                 res_url = img_original_url image_doc \<rparr>,
                           s\<lparr> files := fs', images := insert_one image_doc (images s) \<rparr>))))"

record edit_env =
  ed_output_id :: objectid
  ed_api :: image_api
  ed_now :: timestamp
  ed_inserted_id :: objectid

definition edit_image ::
  "edit_env \<Rightarrow> string \<Rightarrow> string \<Rightarrow> int \<Rightarrow> string \<Rightarrow> state \<Rightarrow> (error + string) \<times> state" where
  "edit_image env image_id edit_type intensity user_id s =
     (case ObjectId user_id of
        None \<Rightarrow> (Inl (HTTPException 400 ''Invalid ObjectId''), s)
      | Some user_object_id \<Rightarrow>
      (case ObjectId image_id of
        None \<Rightarrow> (Inl (HTTPException 400 ''Invalid ObjectId''), s)
      | Some image_object_id \<Rightarrow>
      (case find_one (\<lambda>d. img_oid d = image_object_id) (images s) of
        None \<Rightarrow> (Inl (HTTPException 404 ''Image not found''), s)
      | Some image_doc \<Rightarrow>
          let input_path = path_join UPLOAD_DIR (img_filename image_doc);
              output_filename = str_oid (ed_output_id env) @ ''.jpg'';
              output_path = path_join EDIT_DIR output_filename
          in (case process_image (ed_api env) input_path output_path edit_type intensity (files s) of
                (Inl e, fs') \<Rightarrow> (Inl e, s\<lparr> files := fs' \<rparr>)
              | (Inr u, fs') \<Rightarrow>
                  let edit_doc = \<lparr> edit_oid = ed_inserted_id env,
                                   edit_image_id = image_object_id,
                                   edit_edited_url = ''/static/processed/'' @ output_filename,
                                   edit_prompt = edit_type @ '' with intensity '' @ str_int intensity,
                                   edit_edited_at = ed_now env,
                                   edit_user_id = user_object_id,
                                   edit_edit_type = edit_type,
                                   edit_intensity = intensity \<rparr>
                  in if \<not> fits_int64 intensity
                     then (Inl (OverflowError ''MongoDB can only handle up to 8-byte ints''),
                           s\<lparr> files := fs' \<rparr>)
                     else (Inr (edit_edited_url edit_doc),
                           s\<lparr> files := fs', edits := insert_one edit_doc (edits s) \<rparr>)))))"

section \<open>api/dashboard.py\<close>

record image_summary =
  sum_id :: string
  sum_name :: string
  sum_originalImageUrl :: string
  sum_editedImageUrl :: "string option"
  sum_createdAt :: "timestamp option"
  sum_editType :: "string option"

text \<open>
  One entry of the listing. Every image document carries \<open>filename\<close> and
  \<open>uploaded_at\<close> (upload is the only writer), so the defaults of the two
  \<open>get\<close> calls are never taken.
\<close>

definition summary :: "edit_doc list \<Rightarrow> image_doc \<Rightarrow> image_summary" where
  "summary es img =
     (let edit = find_one (\<lambda>e. edit_image_id e = img_oid img) es
      in \<lparr> sum_id = str_oid (img_oid img),
           sum_name = img_filename img,
           sum_originalImageUrl = ''http://localhost:8000'' @ img_original_url img,
           sum_editedImageUrl =
             (case edit of None \<Rightarrow> None
              | Some e \<Rightarrow> Some (''http://localhost:8000'' @ edit_edited_url e)),
           sum_createdAt = Some (img_uploaded_at img),
           sum_editType = (case edit of None \<Rightarrow> None | Some e \<Rightarrow> Some (edit_edit_type e)) \<rparr>)"

definition get_user_images_by_id :: "string \<Rightarrow> state \<Rightarrow> error + image_summary list" where
  "get_user_images_by_id user_id s =
     (case ObjectId user_id of
        None \<Rightarrow> Inl (HTTPException 400 ''Invalid user ID'')
      | Some user_object_id \<Rightarrow>
          Inr (map (summary (edits s))
                 (filter (\<lambda>d. img_user_id d = user_object_id) (images s))))"

text \<open>
  \<open>delete_image\<close>; \<open>rm_fault\<close> is a failure of \<open>os.remove\<close> other than the file
  being absent. The result is the \<open>status\<close> of the response.
\<close>

definition delete_image ::
  "string option \<Rightarrow> string \<Rightarrow> string \<Rightarrow> state \<Rightarrow> (error + string) \<times> state" where
  "delete_image rm_fault image_id current_user s =
     (case ObjectId image_id of
        None \<Rightarrow> (Inl (HTTPException 400 ''Invalid ID''), s)
      | Some image_object_id \<Rightarrow>
      (case ObjectId current_user of
        None \<Rightarrow> (Inl (HTTPException 400 ''Invalid ID''), s)
      | Some user_object_id \<Rightarrow>
      (case find_one (\<lambda>d. img_oid d = image_object_id \<and> img_user_id d = user_object_id)
              (images s) of
        None \<Rightarrow> (Inl (HTTPException 404 ''Image not found''), s)
      | Some img \<Rightarrow>
          let s1 = s\<lparr> images := delete_one (\<lambda>d. img_oid d = image_object_id) (images s) \<rparr>;
              s2 = s1\<lparr> edits := delete_many (\<lambda>e. edit_image_id e = image_object_id) (edits s1) \<rparr>
          in (case os_remove rm_fault (path_join UPLOAD_DIR (img_filename img)) (files s2) of
                (None, fs') \<Rightarrow> (Inr ''deleted'', s2\<lparr> files := fs' \<rparr>)
              | (Some e, fs') \<Rightarrow>
                  (case e of
                     FileNotFoundError p \<Rightarrow> (Inr ''deleted'', s2\<lparr> files := fs' \<rparr>)
                   | _ \<Rightarrow> (Inl e, s2\<lparr> files := fs' \<rparr>))))))"

section \<open>Well-formed identifiers\<close>

text \<open>
  The datatype \<open>objectid\<close> has room for strings no driver ever produces. An
  identifier is well formed when it has twelve bytes, as every identifier the
  driver generates has: its print is 24 lower-case hexadecimal digits, which
  \<open>ObjectId\<close> reads back as the identifier itself.
\<close>

definition wf_oid :: "objectid \<Rightarrow> bool" where
  "wf_oid i = (ObjectId (str_oid i) = Some i)"

section \<open>Example data\<close>

definition alice_id :: string where
  "alice_id = ''aaaaaaaaaaaaaaaaaaaaaaaa''"

definition bob_id :: string where
  "bob_id = ''bbbbbbbbbbbbbbbbbbbbbbbb''"

definition alice :: user_doc where
  "alice = \<lparr> user_oid = Oid alice_id, user_email = ''a@x.com'',
             user_username = ''a'', user_password_hash = ''salt:pw1'',
             user_created_at = 1000 \<rparr>"

text \<open>
  A stand-in for the hashing library that keeps the one behaviour that matters
  here: a password with a NUL byte is refused with an exception.
\<close>

definition toy_verify :: bcrypt_verify_fun where
  "toy_verify plain hashed =
     (if CHR 0x00 \<in> set plain then Inl ''bcrypt does not allow NULL bytes in password''
      else Inr (drop 5 hashed = plain))"

definition toy_hash :: bcrypt_hash_fun where
  "toy_hash salt plain =
     (if CHR 0x00 \<in> set plain then Inl ''bcrypt does not allow NULL bytes in password''
      else Inr (take 4 (salt @ ''0000'') @ '':'' @ plain))"

definition nul_password :: string where
  "nul_password = [CHR ''p'', CHR ''w'', CHR 0x00]"

definition nul_form_known :: login_form where
  "nul_form_known = \<lparr> form_username = ''a@x.com'', form_password = nul_password \<rparr>"

definition nul_form_unknown :: login_form where
  "nul_form_unknown = \<lparr> form_username = ''nobody@x.com'', form_password = nul_password \<rparr>"


definition store0 :: state where
  "store0 = \<lparr> users = [alice], images = [], edits = [], files = Map.empty \<rparr>"

definition good_form :: login_form where
  "good_form = \<lparr> form_username = ''a@x.com'', form_password = ''pw1'' \<rparr>"

definition bob_request :: auth_request where
  "bob_request = \<lparr> req_email = ''b@x.com'', req_password = ''pw2'' \<rparr>"


definition bob_env :: signup_env where
  "bob_env = \<lparr> su_salt = ''pepp'', su_created_now = 2000, su_inserted_id = Oid bob_id,
               su_token_now = 2000 \<rparr>"

definition cat_id :: string where
  "cat_id = ''111111111111111111111111''"

definition absent_id :: string where
  "absent_id = ''999999999999999999999999''"

definition out_id :: string where
  "out_id = ''eeeeeeeeeeeeeeeeeeeeeeee''"

definition new_edit_id :: string where
  "new_edit_id = ''dddddddddddddddddddddddd''"

definition cat_image :: image_doc where
  "cat_image = \<lparr> img_oid = Oid cat_id, img_user_id = Oid alice_id,
                 img_original_url = ''/static/uploads/cat.png'', img_filename = ''cat.png'',
                 img_uploaded_at = 2500, img_tags = [] \<rparr>"

definition store1 :: state where
  "store1 = \<lparr> users = [alice], images = [cat_image], edits = [],
              files = [resolve ''static/uploads/cat.png'' \<mapsto> [1, 2, 3]] \<rparr>"

definition good_api :: image_api where
  "good_api = \<lparr> client_fault = None, service = (\<lambda>b. Inr (rev b)), out_fault = None \<rparr>"

definition edit_env1 :: edit_env where
  "edit_env1 = \<lparr> ed_output_id = Oid out_id, ed_api = good_api, ed_now = 3000,
                 ed_inserted_id = Oid new_edit_id \<rparr>"

definition cat_file :: upload_file where
  "cat_file = \<lparr> uf_filename = ''cat.png'', uf_content = [1, 2, 3] \<rparr>"

definition other_cat_file :: upload_file where
  "other_cat_file = \<lparr> uf_filename = ''cat.png'', uf_content = [7, 7] \<rparr>"

definition second_id :: string where
  "second_id = ''222222222222222222222222''"

definition upload_env1 :: upload_env where
  "upload_env1 = \<lparr> up_now = 2500, up_inserted_id = Oid cat_id, up_write_fault = None,
                   up_insert_fault = None \<rparr>"

definition upload_env2 :: upload_env where
  "upload_env2 = \<lparr> up_now = 2600, up_inserted_id = Oid second_id, up_write_fault = None,
                   up_insert_fault = None \<rparr>"

definition disk_full :: fault where
  "disk_full = \<lparr> exn_text = ''[Errno 28] No space left on device'', left_behind = Some [] \<rparr>"

definition upload_env_full :: upload_env where
  "upload_env_full = \<lparr> up_now = 2500, up_inserted_id = Oid cat_id,
                       up_write_fault = Some disk_full, up_insert_fault = None \<rparr>"

definition cat_edit :: edit_doc where
  "cat_edit = \<lparr> edit_oid = Oid new_edit_id, edit_image_id = Oid cat_id,
                edit_edited_url = ''/static/processed/'' @ out_id @ ''.jpg'',
                edit_prompt = ''enhance with intensity 50'', edit_edited_at = 3000,
                edit_user_id = Oid alice_id, edit_edit_type = ''enhance'',
                edit_intensity = 50 \<rparr>"

definition store2 :: state where
  "store2 = \<lparr> users = [alice], images = [cat_image], edits = [cat_edit],
              files = [resolve ''static/uploads/cat.png'' \<mapsto> [1, 2, 3],
                       resolve (''static/processed/'' @ out_id @ ''.jpg'') \<mapsto> [3, 2, 1]] \<rparr>"

definition sneaky_file :: upload_file where
  "sneaky_file = \<lparr> uf_filename = ''../processed/'' @ out_id @ ''.jpg'', uf_content = [9] \<rparr>"

definition sneaky_image :: image_doc where
  "sneaky_image = \<lparr> img_oid = Oid second_id, img_user_id = Oid bob_id,
                    img_original_url = ''/static/uploads/../processed/'' @ out_id @ ''.jpg'',
                    img_filename = ''../processed/'' @ out_id @ ''.jpg'',
                    img_uploaded_at = 2600, img_tags = [] \<rparr>"

definition store3 :: state where
  "store3 = \<lparr> users = [alice], images = [cat_image, sneaky_image], edits = [cat_edit],
              files = [resolve ''static/uploads/cat.png'' \<mapsto> [1, 2, 3],
                       resolve (''static/processed/'' @ out_id @ ''.jpg'') \<mapsto> [9]] \<rparr>"

definition third_id :: string where
  "third_id = ''333333333333333333333333''"

definition edit_env2 :: edit_env where
  "edit_env2 = \<lparr> ed_output_id = Oid out_id, ed_api = good_api, ed_now = 3100,
                 ed_inserted_id = Oid third_id \<rparr>"

text \<open>
  A file name that stays where it is put: one component, not empty, not \<open>.\<close> and
  not \<open>..\<close>.
\<close>

definition plain_name :: "string \<Rightarrow> bool" where
  "plain_name f = (f \<noteq> [] \<and> CHR ''/'' \<notin> set f \<and> f \<noteq> ''.'' \<and> f \<noteq> ''..'')"

definition bob_edit :: edit_doc where
  "bob_edit = \<lparr> edit_oid = Oid new_edit_id, edit_image_id = Oid cat_id,
                edit_edited_url = ''/static/processed/'' @ out_id @ ''.jpg'',
                edit_prompt = ''enhance with intensity 50'', edit_edited_at = 3000,
                edit_user_id = Oid bob_id, edit_edit_type = ''enhance'',
                edit_intensity = 50 \<rparr>"

section \<open>Properties\<close>

subsection \<open>Collections and identifiers\<close>

lemma find_one_Some_iff_ex:
  "(\<exists>x. find_one P xs = Some x) \<longleftrightarrow> (\<exists>x\<in>set xs. P x)"
  unfolding find_one_def by (induction xs) auto

lemma find_one_None_iff: "find_one P xs = None \<longleftrightarrow> \<not> (\<exists>x\<in>set xs. P x)"
  unfolding find_one_def by (induction xs) auto

lemma find_one_SomeD: "find_one P xs = Some x \<Longrightarrow> x \<in> set xs \<and> P x"
  unfolding find_one_def by (induction xs) (auto split: if_splits)

lemma wf_oid_str_nonempty: "wf_oid i \<Longrightarrow> str_oid i \<noteq> []"
  by (cases i) (auto simp: wf_oid_def ObjectId_def split: if_splits)

lemmas oid_eval = ObjectId_def is_space_def hexdigit_def lower_hex_def

lemma ObjectId_alice: "ObjectId alice_id = Some (Oid alice_id)"
  by (simp add: oid_eval alice_id_def)

lemma ObjectId_bob: "ObjectId bob_id = Some (Oid bob_id)"
  by (simp add: oid_eval bob_id_def)

lemma alice_neq_bob: "alice_id \<noteq> bob_id"
  by (simp add: alice_id_def bob_id_def)

text \<open>
  Every string of 24 hexadecimal digits, in either case, is accepted and gives a
  well-formed identifier.
\<close>

lemma hexdigit_not_space: "hexdigit c \<Longrightarrow> \<not> is_space c"
  by (auto simp: hexdigit_def is_space_def)

lemma hexdigit_lower: "hexdigit c \<Longrightarrow> hexdigit (lower_hex c) \<and> lower_hex (lower_hex c) = lower_hex c"
  by (auto simp: hexdigit_def lower_hex_def)

lemma fromhex_digits:
  "list_all hexdigit s \<Longrightarrow> even (length s) \<Longrightarrow> fromhex s = Some (map lower_hex s)"
  by (induction s rule: fromhex.induct) (auto simp: hexdigit_not_space)

lemma hex_string_accepted:
  assumes "length s = 24" and "list_all hexdigit s"
  shows "ObjectId s = Some (Oid (map lower_hex s))" and "wf_oid (Oid (map lower_hex s))"
proof -
  from assms show "ObjectId s = Some (Oid (map lower_hex s))"
    by (simp add: ObjectId_def fromhex_digits)
  from assms(2) have "list_all hexdigit (map lower_hex s)"
    and "map lower_hex (map lower_hex s) = map lower_hex s"
    by (induction s) (auto simp: hexdigit_lower)
  with assms(1) show "wf_oid (Oid (map lower_hex s))"
    by (simp add: wf_oid_def ObjectId_def fromhex_digits)
qed

text \<open>
  White space counts towards the 24 characters and not towards the bytes: 22 digits
  and two blanks are accepted and give an identifier of eleven bytes.
\<close>

lemma ObjectId_with_blanks:
  "ObjectId ''1111111111111111111111  '' = Some (Oid ''1111111111111111111111'')"
  by (simp add: oid_eval)

subsection \<open>Login\<close>

text \<open>
  The three outcomes of login. It succeeds exactly when the lookup by email finds
  a record and \<open>verify_password\<close> returns true on the stored hash of that record;
  it answers \<open>HTTPException 401 "Invalid email or password"\<close> exactly when the
  lookup finds nothing or \<open>verify_password\<close> returns false; and when the lookup
  finds a record and \<open>verify_password\<close> raises, the exception leaves the handler.
\<close>

lemma login_outcomes:
  "((\<exists>r. login bcrypt_verify SECRET_KEY now form_data s = Inr r) \<longleftrightarrow>
      (\<exists>u. find_one (\<lambda>u. user_email u = form_username form_data) (users s) = Some u \<and>
           verify_password bcrypt_verify (form_password form_data) (user_password_hash u)
             = Inr True))
   \<and> (login bcrypt_verify SECRET_KEY now form_data s
          = Inl (HTTPException 401 ''Invalid email or password'') \<longleftrightarrow>
        (find_one (\<lambda>u. user_email u = form_username form_data) (users s) = None
         \<or> (\<exists>u. find_one (\<lambda>u. user_email u = form_username form_data) (users s) = Some u \<and>
                verify_password bcrypt_verify (form_password form_data) (user_password_hash u)
                  = Inr False)))
   \<and> (login bcrypt_verify SECRET_KEY now form_data s = Inl (LibraryError e) \<longleftrightarrow>
        (\<exists>u. find_one (\<lambda>u. user_email u = form_username form_data) (users s) = Some u \<and>
             verify_password bcrypt_verify (form_password form_data) (user_password_hash u)
               = Inl e))"
  by (auto simp: login_def Let_def split: option.splits sum.splits)

text \<open>
  C7. The two failures the handler raises itself share one error, but the call of
  \<open>verify_password\<close> is not guarded. With a password that the hashing library
  refuses with an exception (a NUL byte), a known email ends in that uncaught
  exception and an unknown email in \<open>HTTPException 401\<close>: the request fails
  without the error the claim names, and the two answers tell the caller whether
  the email is registered.
\<close>

theorem login_null_password_tells_known_email:
  "find_one (\<lambda>u. user_email u = form_username nul_form_known) (users store0) = Some alice
   \<and> login toy_verify ''k'' 2000 nul_form_known store0
       = Inl (LibraryError ''bcrypt does not allow NULL bytes in password'')
   \<and> find_one (\<lambda>u. user_email u = form_username nul_form_unknown) (users store0) = None
   \<and> login toy_verify ''k'' 2000 nul_form_unknown store0
       = Inl (HTTPException 401 ''Invalid email or password'')"
  by (simp add: login_def nul_form_known_def nul_form_unknown_def nul_password_def store0_def
      alice_def find_one_def verify_password_def toy_verify_def)

subsection \<open>Signup\<close>




subsection \<open>Session tokens\<close>

text \<open>
  C5. A token issued by login, or by signup, authenticates at once: at any time up
  to the expiry written into it (seven days after issue), \<open>get_current_user\<close> with
  the same signing secret returns the subject identifier the response carries,
  which for signup is the printed identifier of the record just inserted. The
  identifiers involved are well formed.
\<close>

theorem issued_token_authenticates:
  "(list_all (\<lambda>u. wf_oid (user_oid u)) (users s) \<longrightarrow>
      login bcrypt_verify SECRET_KEY now form_data s = Inr r \<longrightarrow>
      now' \<le> now + 60 * ACCESS_TOKEN_EXPIRE_MINUTES \<longrightarrow>
      get_current_user SECRET_KEY now' (resp_token r) = Inr (resp_id r))
   \<and> (wf_oid (su_inserted_id env) \<longrightarrow>
      fst (signup bcrypt_hash SECRET_KEY env data s) = Inr r' \<longrightarrow>
      now' \<le> su_token_now env + 60 * ACCESS_TOKEN_EXPIRE_MINUTES \<longrightarrow>
      get_current_user SECRET_KEY now' (resp_token r') = Inr (resp_id r')
        \<and> resp_id r' = str_oid (su_inserted_id env))"
proof -
  have part1: "get_current_user SECRET_KEY now' (resp_token r) = Inr (resp_id r)"
    if wf: "list_all (\<lambda>u. wf_oid (user_oid u)) (users s)"
    and ok: "login bcrypt_verify SECRET_KEY now form_data s = Inr r"
    and t: "now' \<le> now + 60 * ACCESS_TOKEN_EXPIRE_MINUTES"
  proof -
    from ok obtain u where u: "find_one (\<lambda>u. user_email u = form_username form_data) (users s) = Some u"
      and r: "r = \<lparr> resp_email = user_email u, resp_id = str_oid (user_oid u),
                  resp_token = jwt_encode \<lparr> jwt_sub = Some (str_oid (user_oid u)),
                     jwt_exp = Some (now + 60 * ACCESS_TOKEN_EXPIRE_MINUTES) \<rparr> SECRET_KEY \<rparr>"
      by (auto simp: login_def Let_def split: option.splits sum.splits if_splits)
    from u have "u \<in> set (users s)" by (auto dest: find_one_SomeD)
    with wf have "wf_oid (user_oid u)" by (simp add: list_all_iff)
    then have "str_oid (user_oid u) \<noteq> []" by (rule wf_oid_str_nonempty)
    then show ?thesis
      using t by (simp add: r get_current_user_def jwt_decode_def jwt_encode_def)
  qed
  have part2: "get_current_user SECRET_KEY now' (resp_token r') = Inr (resp_id r')
        \<and> resp_id r' = str_oid (su_inserted_id env)"
    if wf: "wf_oid (su_inserted_id env)"
    and ok: "fst (signup bcrypt_hash SECRET_KEY env data s) = Inr r'"
    and t: "now' \<le> su_token_now env + 60 * ACCESS_TOKEN_EXPIRE_MINUTES"
  proof -
    from ok have r: "r' = \<lparr> resp_email = req_email data, resp_id = str_oid (su_inserted_id env),
              resp_token = jwt_encode \<lparr> jwt_sub = Some (str_oid (su_inserted_id env)),
                 jwt_exp = Some (su_token_now env + 60 * ACCESS_TOKEN_EXPIRE_MINUTES) \<rparr> SECRET_KEY \<rparr>"
      by (auto simp: signup_def Let_def split: option.splits sum.splits)
    from wf have "str_oid (su_inserted_id env) \<noteq> []" by (rule wf_oid_str_nonempty)
    then show ?thesis
      using t by (simp add: r get_current_user_def jwt_decode_def jwt_encode_def)
  qed
  from part1 part2 show ?thesis by blast
qed

theorem issued_token_authenticates_witness:
  "list_all (\<lambda>u. wf_oid (user_oid u)) (users store0)
   \<and> (\<exists>r. login toy_verify ''k'' 2000 good_form store0 = Inr r
          \<and> get_current_user ''k'' 606800 (resp_token r) = Inr alice_id)
   \<and> wf_oid (su_inserted_id bob_env)
   \<and> (\<exists>r'. fst (signup toy_hash ''k'' bob_env bob_request store0) = Inr r'
          \<and> get_current_user ''k'' 606800 (resp_token r') = Inr bob_id)"
proof -
  have wf: "list_all (\<lambda>u. wf_oid (user_oid u)) (users store0)"
    by (simp add: store0_def alice_def wf_oid_def ObjectId_alice)
  have wfb: "wf_oid (su_inserted_id bob_env)"
    by (simp add: bob_env_def wf_oid_def ObjectId_bob)
  have t: "(606800::int) \<le> 2000 + 60 * ACCESS_TOKEN_EXPIRE_MINUTES"
    by (simp add: ACCESS_TOKEN_EXPIRE_MINUTES_def)
  have tb: "(606800::int) \<le> su_token_now bob_env + 60 * ACCESS_TOKEN_EXPIRE_MINUTES"
    by (simp add: bob_env_def ACCESS_TOKEN_EXPIRE_MINUTES_def)
  obtain r where r: "login toy_verify ''k'' 2000 good_form store0 = Inr r"
    and rid: "resp_id r = alice_id"
    by (simp add: login_def good_form_def store0_def alice_def find_one_def
        verify_password_def toy_verify_def Let_def)
  obtain r' where r': "fst (signup toy_hash ''k'' bob_env bob_request store0) = Inr r'"
    and rid': "resp_id r' = bob_id"
    by (simp add: signup_def bob_request_def store0_def alice_def find_one_def
        bob_env_def hash_password_def toy_hash_def Let_def)
  from issued_token_authenticates
         [of store0 toy_verify "''k''" 2000 good_form r 606800 bob_env toy_hash bob_request r']
       wf wfb t tb r r' rid rid'
  have "get_current_user ''k'' 606800 (resp_token r) = Inr alice_id"
    and "get_current_user ''k'' 606800 (resp_token r') = Inr bob_id"
    by simp_all
  with wf wfb r r' show ?thesis by blast
qed

subsection \<open>Requesting an edit\<close>

lemma ObjectId_cat: "ObjectId cat_id = Some (Oid cat_id)"
  by (simp add: oid_eval cat_id_def)

lemma ObjectId_absent: "ObjectId absent_id = Some (Oid absent_id)"
  by (simp add: oid_eval absent_id_def)

lemma cat_neq_absent: "cat_id \<noteq> absent_id"
  by (simp add: cat_id_def absent_id_def)

lemma upload_dir_cat: "path_join UPLOAD_DIR ''cat.png'' = ''static/uploads/cat.png''"
  by (simp add: path_join_def UPLOAD_DIR_def STATIC_DIR_def)

lemma edit_dir_out:
  "path_join EDIT_DIR (out_id @ ''.jpg'') = ''static/processed/'' @ out_id @ ''.jpg''"
  by (simp add: path_join_def EDIT_DIR_def STATIC_DIR_def out_id_def)

lemma str_int_50: "str_int 50 = ''50''"
  by (simp add: str_int_def str_nat.simps)

lemma fits_int64_50: "fits_int64 50"
  by (simp add: fits_int64_def)

text \<open>
  C2. Take a user identifier of 24 hexadecimal digits and an image identifier that
  \<open>ObjectId\<close> accepts. When no image carries the identifier the request fails with
  \<open>HTTPException 404 "Image not found"\<close> and the state is unchanged. When an image
  does, whoever owns it, the request goes on to \<open>process_image\<close> on that image's
  file: a failure of \<open>process_image\<close> is the failure of the request, with the files
  as \<open>process_image\<close> left them; a success is followed by the insert of an edit
  record that names the image and carries the caller's identifier as its user, and
  the answer is the URL of the derived file (or, for an intensity that does not fit
  eight bytes, the encoding error of the insert, the derived file being written
  and no record stored). The owner recorded on the image is never read.
\<close>

theorem edit_dispatch_ignores_owner:
  "ObjectId user_id = Some u \<longrightarrow> wf_oid u \<longrightarrow> ObjectId image_id = Some i \<longrightarrow>
     (find_one (\<lambda>d. img_oid d = i) (images s) = None \<longrightarrow>
        edit_image env image_id edit_type intensity user_id s
          = (Inl (HTTPException 404 ''Image not found''), s))
     \<and> (\<forall>d. find_one (\<lambda>d. img_oid d = i) (images s) = Some d \<longrightarrow>
          (\<forall>e fs'. process_image (ed_api env) (path_join UPLOAD_DIR (img_filename d))
                      (path_join EDIT_DIR (str_oid (ed_output_id env) @ ''.jpg''))
                      edit_type intensity (files s) = (Inl e, fs') \<longrightarrow>
             edit_image env image_id edit_type intensity user_id s
               = (Inl e, s\<lparr> files := fs' \<rparr>))
          \<and> (\<forall>fs'. process_image (ed_api env) (path_join UPLOAD_DIR (img_filename d))
                      (path_join EDIT_DIR (str_oid (ed_output_id env) @ ''.jpg''))
                      edit_type intensity (files s) = (Inr (), fs') \<longrightarrow>
               (fits_int64 intensity \<longrightarrow>
                  edit_image env image_id edit_type intensity user_id s
                    = (Inr (''/static/processed/'' @ str_oid (ed_output_id env) @ ''.jpg''),
                       s\<lparr> files := fs',
                          edits := edits s @
                            [\<lparr> edit_oid = ed_inserted_id env,
                               edit_image_id = i,
                               edit_edited_url =
                                 ''/static/processed/'' @ str_oid (ed_output_id env) @ ''.jpg'',
                               edit_prompt = edit_type @ '' with intensity '' @ str_int intensity,
                               edit_edited_at = ed_now env,
                               edit_user_id = u,
                               edit_edit_type = edit_type,
                               edit_intensity = intensity \<rparr>] \<rparr>))
               \<and> (\<not> fits_int64 intensity \<longrightarrow>
                  edit_image env image_id edit_type intensity user_id s
                    = (Inl (OverflowError ''MongoDB can only handle up to 8-byte ints''),
                       s\<lparr> files := fs' \<rparr>))))"
  by (simp add: edit_image_def insert_one_def Let_def)

theorem edit_dispatch_ignores_owner_witness:
  "ObjectId bob_id = Some (Oid bob_id) \<and> wf_oid (Oid bob_id)
   \<and> ObjectId cat_id = Some (Oid cat_id)
   \<and> find_one (\<lambda>d. img_oid d = Oid cat_id) (images store1) = Some cat_image
   \<and> img_user_id cat_image \<noteq> Oid bob_id
   \<and> fits_int64 50
   \<and> edit_image edit_env1 cat_id ''enhance'' 50 bob_id store1
       = (Inr (''/static/processed/'' @ out_id @ ''.jpg''),
          store1\<lparr> files := (files store1)(resolve (''static/processed/'' @ out_id @ ''.jpg'')
                                             \<mapsto> [3, 2, 1]),
                  edits := [bob_edit] \<rparr>)"
proof -
  have wf: "wf_oid (Oid bob_id)"
    by (simp add: wf_oid_def ObjectId_bob)
  have f: "find_one (\<lambda>d. img_oid d = Oid cat_id) (images store1) = Some cat_image"
    by (simp add: store1_def cat_image_def find_one_def)
  have o: "img_user_id cat_image \<noteq> Oid bob_id"
    by (simp add: cat_image_def alice_neq_bob)
  have p: "process_image (ed_api edit_env1) (path_join UPLOAD_DIR (img_filename cat_image))
             (path_join EDIT_DIR (str_oid (ed_output_id edit_env1) @ ''.jpg''))
             ''enhance'' 50 (files store1)
           = (Inr (), (files store1)(resolve (''static/processed/'' @ out_id @ ''.jpg'')
                                       \<mapsto> [3, 2, 1]))"
    by (simp add: cat_image_def upload_dir_cat edit_dir_out process_image_def prompts_def
        edit_env1_def good_api_def store1_def write_file_def)
  from edit_dispatch_ignores_owner
         [of bob_id "Oid bob_id" cat_id "Oid cat_id" store1 edit_env1 "''enhance''" 50]
       ObjectId_bob wf ObjectId_cat f p fits_int64_50
  have "edit_image edit_env1 cat_id ''enhance'' 50 bob_id store1
          = (Inr (''/static/processed/'' @ str_oid (ed_output_id edit_env1) @ ''.jpg''),
             store1\<lparr> files := (files store1)(resolve (''static/processed/'' @ out_id @ ''.jpg'')
                                                \<mapsto> [3, 2, 1]),
                edits := edits store1 @
                  [\<lparr> edit_oid = ed_inserted_id edit_env1,
                     edit_image_id = Oid cat_id,
                     edit_edited_url =
                       ''/static/processed/'' @ str_oid (ed_output_id edit_env1) @ ''.jpg'',
                     edit_prompt = ''enhance'' @ '' with intensity '' @ str_int 50,
                     edit_edited_at = ed_now edit_env1,
                     edit_user_id = Oid bob_id,
                     edit_edit_type = ''enhance'',
                     edit_intensity = 50 \<rparr>] \<rparr>)"
    by blast
  then have "edit_image edit_env1 cat_id ''enhance'' 50 bob_id store1
       = (Inr (''/static/processed/'' @ out_id @ ''.jpg''),
          store1\<lparr> files := (files store1)(resolve (''static/processed/'' @ out_id @ ''.jpg'')
                                             \<mapsto> [3, 2, 1]),
                  edits := [bob_edit] \<rparr>)"
    by (simp add: edit_env1_def bob_edit_def str_int_50 store1_def)
  with ObjectId_bob wf ObjectId_cat f o fits_int64_50 show ?thesis by simp
qed

text \<open>
  C1. The edit record takes its user reference from the caller's form field and
  never compares it with the owner stored on the image. Here the image belongs to
  the first user, the request names the second, the request succeeds, and the one
  edit record written carries the second user's identifier.
\<close>

theorem edit_record_owner_mismatch:
  "map img_user_id (filter (\<lambda>d. img_oid d = Oid cat_id) (images store1)) = [Oid alice_id]
   \<and> fst (edit_image edit_env1 cat_id ''enhance'' 50 bob_id store1)
       = Inr (''/static/processed/'' @ out_id @ ''.jpg'')
   \<and> map edit_image_id (edits (snd (edit_image edit_env1 cat_id ''enhance'' 50 bob_id store1)))
       = [Oid cat_id]
   \<and> map edit_user_id (edits (snd (edit_image edit_env1 cat_id ''enhance'' 50 bob_id store1)))
       = [Oid bob_id]
   \<and> Oid bob_id \<noteq> Oid alice_id"
  using alice_neq_bob
  by (simp add: edit_image_def ObjectId_bob ObjectId_cat store1_def cat_image_def find_one_def
      upload_dir_cat edit_dir_out process_image_def prompts_def edit_env1_def good_api_def
      write_file_def insert_one_def fits_int64_50 Let_def)

text \<open>
  C4. An edit type outside the five keys of \<open>prompts\<close> is only looked at inside
  \<open>process_image\<close>, after the identifiers are parsed and the image is found. So
  such a request always fails and leaves the state as it was, no edit record
  written; the failure is \<open>ValueError "Unsupported edit_type: ..."\<close> when
  \<open>ObjectId\<close> accepts both identifiers and the image exists, \<open>HTTPException 400\<close>
  when \<open>ObjectId\<close> refuses one of them, and \<open>HTTPException 404\<close> when the image is
  absent.
\<close>

theorem unsupported_edit_type_fails:
  "edit_type \<notin> set prompts \<longrightarrow>
     (\<exists>e. fst (edit_image env image_id edit_type intensity user_id s) = Inl e)
     \<and> snd (edit_image env image_id edit_type intensity user_id s) = s
     \<and> edits (snd (edit_image env image_id edit_type intensity user_id s)) = edits s
     \<and> (ObjectId user_id = None \<or> ObjectId image_id = None \<longrightarrow>
          fst (edit_image env image_id edit_type intensity user_id s)
            = Inl (HTTPException 400 ''Invalid ObjectId''))
     \<and> (\<forall>u i. ObjectId user_id = Some u \<longrightarrow> ObjectId image_id = Some i \<longrightarrow>
          (find_one (\<lambda>d. img_oid d = i) (images s) = None \<longrightarrow>
             fst (edit_image env image_id edit_type intensity user_id s)
               = Inl (HTTPException 404 ''Image not found''))
          \<and> (find_one (\<lambda>d. img_oid d = i) (images s) \<noteq> None \<longrightarrow>
             fst (edit_image env image_id edit_type intensity user_id s)
               = Inl (ValueError (''Unsupported edit_type: '' @ edit_type))))"
  by (auto simp: edit_image_def process_image_def Let_def split: option.splits)

theorem unsupported_edit_type_fails_witness:
  "''blur'' \<notin> set prompts
   \<and> fst (edit_image edit_env1 cat_id ''blur'' 50 alice_id store1)
       = Inl (ValueError ''Unsupported edit_type: blur'')
   \<and> snd (edit_image edit_env1 cat_id ''blur'' 50 alice_id store1) = store1"
proof -
  have n: "''blur'' \<notin> set prompts" by (simp add: prompts_def)
  have f: "find_one (\<lambda>d. img_oid d = Oid cat_id) (images store1) \<noteq> None"
    by (simp add: store1_def cat_image_def find_one_def)
  from unsupported_edit_type_fails [of "''blur''" edit_env1 cat_id 50 alice_id store1]
       n f ObjectId_alice ObjectId_cat
  show ?thesis by simp
qed

theorem unsupported_edit_type_counterexample:
  "''blur'' \<notin> set prompts
   \<and> fst (edit_image edit_env1 absent_id ''blur'' 50 alice_id store1)
       = Inl (HTTPException 404 ''Image not found'')
   \<and> fst (edit_image edit_env1 absent_id ''blur'' 50 alice_id store1)
       \<noteq> Inl (ValueError ''Unsupported edit_type: blur'')"
  using cat_neq_absent
  by (simp add: prompts_def edit_image_def ObjectId_alice ObjectId_absent store1_def
      cat_image_def find_one_def)

text \<open>
  An identifier with white space is accepted, so the request goes past the check
  of the identifiers: here to the lookup, which finds nothing.
\<close>

lemma ObjectId_bob_with_blanks:
  "ObjectId ''bbbbbbbbbbbbbbbbbbbbbb  '' = Some (Oid ''bbbbbbbbbbbbbbbbbbbbbb'')"
  by (simp add: oid_eval)

lemma edit_with_blank_user_id:
  "fst (edit_image edit_env1 absent_id ''blur'' 50 ''bbbbbbbbbbbbbbbbbbbbbb  '' store1)
     = Inl (HTTPException 404 ''Image not found'')"
  using cat_neq_absent
  by (simp add: edit_image_def ObjectId_absent ObjectId_bob_with_blanks store1_def
      cat_image_def find_one_def)

subsection \<open>Uploading\<close>

text \<open>
  C8. The file an upload writes is \<open>resolve (path_join UPLOAD_DIR filename)\<close>, a
  function of the file name alone: not of the user, the content, the time or what
  is already stored. So when an upload succeeds and a second upload with the same
  file name succeeds after it, by the same user or another, the second write lands
  on the file the first one wrote and replaces its content; both answers carry the
  same URL, both image records the same file name, and no other file changes.
\<close>

theorem upload_same_filename_overwrites:
  "upload_image env1 file1 user_id1 s = (Inr r1, s1) \<longrightarrow>
   upload_image env2 file2 user_id2 s1 = (Inr r2, s2) \<longrightarrow>
   uf_filename file2 = uf_filename file1 \<longrightarrow>
     files s1 (resolve (path_join UPLOAD_DIR (uf_filename file1))) = Some (uf_content file1)
     \<and> files s2 (resolve (path_join UPLOAD_DIR (uf_filename file1))) = Some (uf_content file2)
     \<and> (\<forall>loc. loc \<noteq> resolve (path_join UPLOAD_DIR (uf_filename file1)) \<longrightarrow>
           files s2 loc = files s loc)
     \<and> res_url r1 = ''/static/uploads/'' @ uf_filename file1 \<and> res_url r2 = res_url r1
     \<and> (\<exists>d1 d2. images s2 = images s @ [d1, d2]
           \<and> img_filename d1 = uf_filename file1 \<and> img_filename d2 = uf_filename file1
           \<and> ObjectId user_id1 = Some (img_user_id d1)
           \<and> ObjectId user_id2 = Some (img_user_id d2))"
proof (intro impI)
  assume a1: "upload_image env1 file1 user_id1 s = (Inr r1, s1)"
    and a2: "upload_image env2 file2 user_id2 s1 = (Inr r2, s2)"
    and same: "uf_filename file2 = uf_filename file1"
  let ?loc = "resolve (path_join UPLOAD_DIR (uf_filename file1))"
  from a1 obtain u1 where u1: "ObjectId user_id1 = Some u1"
    and w1: "up_write_fault env1 = None" and i1: "up_insert_fault env1 = None"
    by (auto simp: upload_image_def write_file_def Let_def split: option.splits)
  from a2 obtain u2 where u2: "ObjectId user_id2 = Some u2"
    and w2: "up_write_fault env2 = None" and i2: "up_insert_fault env2 = None"
    by (auto simp: upload_image_def write_file_def Let_def split: option.splits)
  let ?d1 = "\<lparr> img_oid = up_inserted_id env1, img_user_id = u1,
                img_original_url = ''/static/uploads/'' @ uf_filename file1,
                img_filename = uf_filename file1, img_uploaded_at = up_now env1,
                img_tags = [] \<rparr>"
  let ?d2 = "\<lparr> img_oid = up_inserted_id env2, img_user_id = u2,
                img_original_url = ''/static/uploads/'' @ uf_filename file1,
                img_filename = uf_filename file1, img_uploaded_at = up_now env2,
                img_tags = [] \<rparr>"
  from a1 u1 w1 i1 have s1: "s1 = s\<lparr> files := (files s)(?loc \<mapsto> uf_content file1),
                                     images := images s @ [?d1] \<rparr>"
    and r1: "res_url r1 = ''/static/uploads/'' @ uf_filename file1"
    by (auto simp: upload_image_def write_file_def insert_one_def Let_def)
  from a2 u2 w2 i2 same have s2: "s2 = s1\<lparr> files := (files s1)(?loc \<mapsto> uf_content file2),
                                     images := images s1 @ [?d2] \<rparr>"
    and r2: "res_url r2 = ''/static/uploads/'' @ uf_filename file1"
    by (auto simp: upload_image_def write_file_def insert_one_def Let_def)
  have "images s2 = images s @ [?d1, ?d2]"
    by (simp add: s1 s2)
  then have recs: "\<exists>d1 d2. images s2 = images s @ [d1, d2]
           \<and> img_filename d1 = uf_filename file1 \<and> img_filename d2 = uf_filename file1
           \<and> ObjectId user_id1 = Some (img_user_id d1)
           \<and> ObjectId user_id2 = Some (img_user_id d2)"
    using u1 u2 by (intro exI [where x = ?d1] exI [where x = ?d2]) simp
  show "files s1 ?loc = Some (uf_content file1)
     \<and> files s2 ?loc = Some (uf_content file2)
     \<and> (\<forall>loc. loc \<noteq> ?loc \<longrightarrow> files s2 loc = files s loc)
     \<and> res_url r1 = ''/static/uploads/'' @ uf_filename file1 \<and> res_url r2 = res_url r1
     \<and> (\<exists>d1 d2. images s2 = images s @ [d1, d2]
           \<and> img_filename d1 = uf_filename file1 \<and> img_filename d2 = uf_filename file1
           \<and> ObjectId user_id1 = Some (img_user_id d1)
           \<and> ObjectId user_id2 = Some (img_user_id d2))"
    using recs r1 r2 by (simp add: s1 s2)
qed

lemma upload_cat_by_alice:
  "upload_image upload_env1 cat_file alice_id store0
     = (Inr \<lparr> res_image_id = cat_id, res_url = ''/static/uploads/cat.png'' \<rparr>, store1)"
  by (simp add: upload_image_def ObjectId_alice cat_file_def upload_env1_def write_file_def
      upload_dir_cat insert_one_def store0_def store1_def cat_image_def Let_def)

theorem upload_same_filename_overwrites_witness:
  "upload_image upload_env1 cat_file alice_id store0
     = (Inr \<lparr> res_image_id = cat_id, res_url = ''/static/uploads/cat.png'' \<rparr>, store1)
   \<and> (\<exists>r2 s2. upload_image upload_env2 other_cat_file bob_id store1 = (Inr r2, s2)
         \<and> files store1 (resolve ''static/uploads/cat.png'') = Some [1, 2, 3]
         \<and> files s2 (resolve ''static/uploads/cat.png'') = Some [7, 7])"
proof -
  obtain r2 s2 where u2: "upload_image upload_env2 other_cat_file bob_id store1 = (Inr r2, s2)"
    by (simp add: upload_image_def ObjectId_bob other_cat_file_def upload_env2_def
        write_file_def Let_def)
  have same: "uf_filename other_cat_file = uf_filename cat_file"
    by (simp add: cat_file_def other_cat_file_def)
  from upload_same_filename_overwrites
         [of upload_env1 cat_file alice_id store0 _ store1 upload_env2 other_cat_file bob_id r2 s2]
       upload_cat_by_alice u2 same
  have "files store1 (resolve (path_join UPLOAD_DIR (uf_filename cat_file))) = Some (uf_content cat_file)"
    and "files s2 (resolve (path_join UPLOAD_DIR (uf_filename cat_file))) = Some (uf_content other_cat_file)"
    by blast+
  then have "files store1 (resolve ''static/uploads/cat.png'') = Some [1, 2, 3]"
    and "files s2 (resolve ''static/uploads/cat.png'') = Some [7, 7]"
    by (simp_all add: cat_file_def other_cat_file_def upload_dir_cat)
  with upload_cat_by_alice u2 show ?thesis by blast
qed

text \<open>
  C9. When the write of the uploaded bytes fails, the caller is answered
  \<open>HTTPException 500\<close> whose detail is the fixed text \<open>File save failed: \<close>
  followed by the text of the exception itself; when the write succeeds and the
  insert of the image record fails, the detail is \<open>Insert failed: \<close> followed by
  the text of that exception.
\<close>

theorem storage_failure_detail:
  "ObjectId user_id = Some u \<longrightarrow>
     (\<forall>f. up_write_fault env = Some f \<longrightarrow>
        fst (upload_image env file user_id s)
          = Inl (HTTPException 500 (''File save failed: '' @ exn_text f)))
     \<and> (\<forall>e. up_write_fault env = None \<longrightarrow> up_insert_fault env = Some e \<longrightarrow>
        fst (upload_image env file user_id s)
          = Inl (HTTPException 500 (''Insert failed: '' @ e)))"
  by (auto simp: upload_image_def write_file_def Let_def split: option.splits)

theorem storage_failure_detail_witness:
  "ObjectId alice_id = Some (Oid alice_id)
   \<and> up_write_fault upload_env_full = Some disk_full
   \<and> fst (upload_image upload_env_full cat_file alice_id store0)
       = Inl (HTTPException 500 (''File save failed: '' @ exn_text disk_full))"
proof -
  have w: "up_write_fault upload_env_full = Some disk_full"
    by (simp add: upload_env_full_def)
  from storage_failure_detail [of alice_id "Oid alice_id" upload_env_full cat_file store0]
       ObjectId_alice w
  show ?thesis by blast
qed

theorem storage_failure_leaks_counterexample:
  "fst (upload_image upload_env_full cat_file alice_id store0)
     = Inl (HTTPException 500 ''File save failed: [Errno 28] No space left on device'')
   \<and> exn_text disk_full = ''[Errno 28] No space left on device''"
  by (simp add: upload_image_def ObjectId_alice upload_env_full_def disk_full_def
      write_file_def Let_def)

subsection \<open>Deleting an image\<close>

lemma delete_one_distinct:
  "distinct (map f xs) \<Longrightarrow> delete_one (\<lambda>d. f d = i) xs = filter (\<lambda>d. f d \<noteq> i) xs"
proof (induction xs)
  case Nil
  then show ?case by simp
next
  case (Cons x xs)
  show ?case
  proof (cases "f x = i")
    case True
    from Cons.prems have "f x \<notin> f ` set xs" by simp
    with True have "\<forall>y\<in>set xs. f y \<noteq> i" by (metis imageI)
    then have "filter (\<lambda>d. f d \<noteq> i) xs = xs" by (simp add: filter_id_conv)
    with True show ?thesis by simp
  next
    case False
    with Cons show ?thesis by simp
  qed
qed

lemma find_one_filter:
  "(\<And>x. P x \<Longrightarrow> Q x) \<Longrightarrow> find_one P (filter Q xs) = find_one P xs"
  unfolding find_one_def by (induction xs) auto

lemma summary_other_image:
  "img_oid d \<noteq> i \<Longrightarrow>
     summary (filter (\<lambda>e. edit_image_id e \<noteq> i) es) d = summary es d"
proof -
  assume "img_oid d \<noteq> i"
  then have "find_one (\<lambda>e. edit_image_id e = img_oid d) (filter (\<lambda>e. edit_image_id e \<noteq> i) es)
               = find_one (\<lambda>e. edit_image_id e = img_oid d) es"
    by (intro find_one_filter) simp
  then show ?thesis by (simp add: summary_def)
qed

lemma str_oid_inject: "str_oid a = str_oid b \<longleftrightarrow> a = b"
  by (cases a; cases b) simp

lemma sum_id_summary: "sum_id (summary es d) = str_oid (img_oid d)"
  by (simp add: summary_def Let_def)

lemma listing_without_image:
  "map (summary (filter (\<lambda>e. edit_image_id e \<noteq> i) es))
       (filter P (filter (\<lambda>d. img_oid d \<noteq> i) ds))
     = filter (\<lambda>e. sum_id e \<noteq> str_oid i) (map (summary es) (filter P ds))"
  by (induction ds) (auto simp: summary_other_image sum_id_summary str_oid_inject)

lemma delete_image_cases:
  assumes "ObjectId image_id = Some i" and "ObjectId current_user = Some u"
  shows "find_one (\<lambda>d. img_oid d = i \<and> img_user_id d = u) (images s) = None \<Longrightarrow>
           delete_image rm_fault image_id current_user s
             = (Inl (HTTPException 404 ''Image not found''), s)"
    and "find_one (\<lambda>d. img_oid d = i \<and> img_user_id d = u) (images s) = Some d \<Longrightarrow>
           fst (delete_image rm_fault image_id current_user s) \<noteq> Inl (HTTPException 404 ''Image not found'')
           \<and> images (snd (delete_image rm_fault image_id current_user s))
                = delete_one (\<lambda>d. img_oid d = i) (images s)
           \<and> edits (snd (delete_image rm_fault image_id current_user s))
                = delete_many (\<lambda>e. edit_image_id e = i) (edits s)"
  using assms
  by (auto simp: delete_image_def os_remove_def Let_def split: option.splits error.splits)

text \<open>
  C3. An image or user identifier that \<open>ObjectId\<close> refuses is answered
  \<open>HTTPException 400\<close> with the state unchanged. For identifiers it accepts,
  \<open>delete_image\<close> fails with \<open>HTTPException 404 "Image not found"\<close> exactly when no
  image record has both that identifier and that owner, and then the state is
  unchanged. When it answers
  \<open>deleted\<close> (identifiers being unique within the image collection), no image
  record with the identifier and no edit record referring to it is left, the other
  records are as they were, and the listing of that user afterwards is the listing
  before without the entry of that image: no entry of it carries the identifier.
\<close>

theorem delete_image_owner_and_cascade:
  "(ObjectId image_id = None \<or> ObjectId current_user = None \<longrightarrow>
      delete_image rm_fault image_id current_user s = (Inl (HTTPException 400 ''Invalid ID''), s))
   \<and> (\<forall>i u. ObjectId image_id = Some i \<longrightarrow> ObjectId current_user = Some u \<longrightarrow>
        ((fst (delete_image rm_fault image_id current_user s)
            = Inl (HTTPException 404 ''Image not found''))
          \<longleftrightarrow> \<not> (\<exists>d\<in>set (images s). img_oid d = i \<and> img_user_id d = u))
        \<and> (\<not> (\<exists>d\<in>set (images s). img_oid d = i \<and> img_user_id d = u) \<longrightarrow>
              snd (delete_image rm_fault image_id current_user s) = s)
        \<and> (distinct (map img_oid (images s)) \<longrightarrow>
            fst (delete_image rm_fault image_id current_user s) = Inr ''deleted'' \<longrightarrow>
              images (snd (delete_image rm_fault image_id current_user s))
                = filter (\<lambda>d. img_oid d \<noteq> i) (images s)
              \<and> edits (snd (delete_image rm_fault image_id current_user s))
                = filter (\<lambda>e. edit_image_id e \<noteq> i) (edits s)
              \<and> (\<exists>before. get_user_images_by_id current_user s = Inr before
                    \<and> get_user_images_by_id current_user
                          (snd (delete_image rm_fault image_id current_user s))
                        = Inr (filter (\<lambda>e. sum_id e \<noteq> str_oid i) before))))"
proof (intro conjI allI impI)
  assume "ObjectId image_id = None \<or> ObjectId current_user = None"
  then show "delete_image rm_fault image_id current_user s
               = (Inl (HTTPException 400 ''Invalid ID''), s)"
    by (auto simp: delete_image_def split: option.splits)
next
  fix i u
  assume ids: "ObjectId image_id = Some i" "ObjectId current_user = Some u"
  let ?r = "delete_image rm_fault image_id current_user s"
  let ?found = "find_one (\<lambda>d. img_oid d = i \<and> img_user_id d = u) (images s)"
  show "(fst ?r = Inl (HTTPException 404 ''Image not found''))
          \<longleftrightarrow> \<not> (\<exists>d\<in>set (images s). img_oid d = i \<and> img_user_id d = u)"
  proof (cases ?found)
    case None
    with delete_image_cases(1) [OF ids] show ?thesis
      by (simp add: find_one_None_iff)
  next
    case (Some d)
    then have "\<exists>d\<in>set (images s). img_oid d = i \<and> img_user_id d = u"
      using find_one_Some_iff_ex [of "\<lambda>d. img_oid d = i \<and> img_user_id d = u" "images s"] by auto
    with delete_image_cases(2) [OF ids Some] show ?thesis by simp
  qed
  {
    assume "\<not> (\<exists>d\<in>set (images s). img_oid d = i \<and> img_user_id d = u)"
    then have "?found = None" by (simp add: find_one_None_iff)
    with delete_image_cases(1) [OF ids] show "snd ?r = s" by simp
  }
  {
    assume dist: "distinct (map img_oid (images s))" and ok: "fst ?r = Inr ''deleted''"
    have "?found \<noteq> None"
    proof
      assume "?found = None"
      with delete_image_cases(1) [OF ids] ok show False by simp
    qed
    then obtain d where d: "?found = Some d" by auto
    from delete_image_cases(2) [OF ids d] dist
    have im: "images (snd ?r) = filter (\<lambda>d. img_oid d \<noteq> i) (images s)"
      and ed: "edits (snd ?r) = filter (\<lambda>e. edit_image_id e \<noteq> i) (edits s)"
      by (simp_all add: delete_one_distinct delete_many_def)
    show "images (snd ?r) = filter (\<lambda>d. img_oid d \<noteq> i) (images s)" by (rule im)
    show "edits (snd ?r) = filter (\<lambda>e. edit_image_id e \<noteq> i) (edits s)" by (rule ed)
    show "\<exists>before. get_user_images_by_id current_user s = Inr before
            \<and> get_user_images_by_id current_user (snd ?r)
                = Inr (filter (\<lambda>e. sum_id e \<noteq> str_oid i) before)"
    proof -
      have "get_user_images_by_id current_user s
              = Inr (map (summary (edits s)) (filter (\<lambda>d. img_user_id d = u) (images s)))"
        using ids by (simp add: get_user_images_by_id_def)
      moreover have "get_user_images_by_id current_user (snd ?r)
              = Inr (map (summary (filter (\<lambda>e. edit_image_id e \<noteq> i) (edits s)))
                       (filter (\<lambda>d. img_user_id d = u)
                          (filter (\<lambda>d. img_oid d \<noteq> i) (images s))))"
        using ids unfolding get_user_images_by_id_def im ed by (simp only: option.case)
      ultimately show ?thesis
        by (simp only: listing_without_image) blast
    qed
  }
qed
theorem delete_image_owner_and_cascade_witness:
  "ObjectId cat_id = Some (Oid cat_id) \<and> ObjectId alice_id = Some (Oid alice_id)
   \<and> distinct (map img_oid (images store2))
   \<and> fst (delete_image None cat_id alice_id store2) = Inr ''deleted''
   \<and> images (snd (delete_image None cat_id alice_id store2)) = []
   \<and> edits (snd (delete_image None cat_id alice_id store2)) = []
   \<and> get_user_images_by_id alice_id (snd (delete_image None cat_id alice_id store2)) = Inr []
   \<and> fst (delete_image None cat_id bob_id store2) = Inl (HTTPException 404 ''Image not found'')"
proof -
  have dist: "distinct (map img_oid (images store2))"
    by (simp add: store2_def)
  have ok: "fst (delete_image None cat_id alice_id store2) = Inr ''deleted''"
    by (simp add: delete_image_def ObjectId_cat ObjectId_alice store2_def cat_image_def
        find_one_def os_remove_def upload_dir_cat Let_def)
  have nobody: "\<not> (\<exists>d\<in>set (images store2). img_oid d = Oid cat_id \<and> img_user_id d = Oid bob_id)"
    using alice_neq_bob by (simp add: store2_def cat_image_def)
  have before: "get_user_images_by_id alice_id store2 = Inr [summary (edits store2) cat_image]"
    by (simp add: get_user_images_by_id_def ObjectId_alice store2_def cat_image_def)
  from delete_image_owner_and_cascade [of cat_id alice_id None store2]
       ObjectId_cat ObjectId_alice dist ok
  have "images (snd (delete_image None cat_id alice_id store2))
          = filter (\<lambda>d. img_oid d \<noteq> Oid cat_id) (images store2)"
    and "edits (snd (delete_image None cat_id alice_id store2))
          = filter (\<lambda>e. edit_image_id e \<noteq> Oid cat_id) (edits store2)"
    and "\<exists>before. get_user_images_by_id alice_id store2 = Inr before
            \<and> get_user_images_by_id alice_id (snd (delete_image None cat_id alice_id store2))
                = Inr (filter (\<lambda>e. sum_id e \<noteq> str_oid (Oid cat_id)) before)"
    by blast+
  then have "images (snd (delete_image None cat_id alice_id store2)) = []"
    and "edits (snd (delete_image None cat_id alice_id store2)) = []"
    and "get_user_images_by_id alice_id (snd (delete_image None cat_id alice_id store2)) = Inr []"
    using before
    by (auto simp: store2_def cat_image_def cat_edit_def sum_id_summary)
  moreover
  from delete_image_owner_and_cascade [of cat_id bob_id None store2]
       ObjectId_cat ObjectId_bob nobody
  have "fst (delete_image None cat_id bob_id store2) = Inl (HTTPException 404 ''Image not found'')"
    by blast
  ultimately show ?thesis
    using dist ok ObjectId_cat ObjectId_alice by simp
qed

theorem delete_image_malformed_id_counterexample:
  "ObjectId ''cat'' = None
   \<and> fst (delete_image None ''cat'' alice_id store2) = Inl (HTTPException 400 ''Invalid ID'')
   \<and> fst (delete_image None ''cat'' alice_id store2) \<noteq> Inl (HTTPException 404 ''Image not found'')"
  by (simp add: ObjectId_def delete_image_def)

lemmas path_eval =
  path_join_def UPLOAD_DIR_def EDIT_DIR_def STATIC_DIR_def resolve_def walk_def out_id_def

text \<open>
  An image identifier of 22 digits and two blanks is accepted and names no image:
  the answer is 404, not 400.
\<close>

lemma delete_with_blank_image_id:
  "delete_image None ''1111111111111111111111  '' alice_id store2
     = (Inl (HTTPException 404 ''Image not found''), store2)"
  by (simp add: delete_image_def ObjectId_with_blanks ObjectId_alice store2_def cat_image_def
      cat_id_def find_one_def)

lemma ObjectId_second: "ObjectId second_id = Some (Oid second_id)"
  by (simp add: oid_eval second_id_def)

lemma cat_neq_second: "cat_id \<noteq> second_id"
  by (simp add: cat_id_def second_id_def)

lemma edit_cat_by_alice:
  "edit_image edit_env1 cat_id ''enhance'' 50 alice_id store1
     = (Inr (''/static/processed/'' @ out_id @ ''.jpg''), store2)"
  by (simp add: edit_image_def ObjectId_alice ObjectId_cat store1_def store2_def cat_image_def
      cat_edit_def find_one_def path_eval process_image_def prompts_def
      edit_env1_def good_api_def write_file_def insert_one_def str_int_50 fits_int64_50
      Let_def)

lemma upload_sneaky_by_bob:
  "upload_image upload_env2 sneaky_file bob_id store2
     = (Inr \<lparr> res_image_id = second_id,
              res_url = ''/static/uploads/../processed/'' @ out_id @ ''.jpg'' \<rparr>, store3)"
  by (simp add: upload_image_def ObjectId_bob sneaky_file_def upload_env2_def write_file_def
      path_eval insert_one_def store2_def store3_def
      sneaky_image_def Let_def)

text \<open>
  C10. The path \<open>delete_image\<close> removes is \<open>os.path.join(UPLOAD_DIR, filename)\<close>
  with the file name exactly as the uploading client sent it. A name that climbs
  out of the uploads directory names a file of the processed area. The run below
  starts from one user's image: that image is edited (which writes the derived
  file), a second user uploads a file named \<open>../processed/<derived name>\<close> and
  then deletes that upload. The delete succeeds, the first image's edit record is
  still there, and the derived file it refers to is gone.
\<close>

theorem delete_image_removes_processed_file:
  "edit_image edit_env1 cat_id ''enhance'' 50 alice_id store1
     = (Inr (''/static/processed/'' @ out_id @ ''.jpg''), store2)
   \<and> files store2 (resolve (''static/processed/'' @ out_id @ ''.jpg'')) = Some [3, 2, 1]
   \<and> upload_image upload_env2 sneaky_file bob_id store2
     = (Inr \<lparr> res_image_id = second_id,
              res_url = ''/static/uploads/../processed/'' @ out_id @ ''.jpg'' \<rparr>, store3)
   \<and> fst (delete_image None second_id bob_id store3) = Inr ''deleted''
   \<and> edits (snd (delete_image None second_id bob_id store3)) = [cat_edit]
   \<and> edit_edited_url cat_edit = ''/static/processed/'' @ out_id @ ''.jpg''
   \<and> files (snd (delete_image None second_id bob_id store3))
        (resolve (''static/processed/'' @ out_id @ ''.jpg'')) = None"
proof -
  have del: "fst (delete_image None second_id bob_id store3) = Inr ''deleted''
     \<and> edits (snd (delete_image None second_id bob_id store3)) = [cat_edit]
     \<and> files (snd (delete_image None second_id bob_id store3))
          (resolve (''static/processed/'' @ out_id @ ''.jpg'')) = None"
    using cat_neq_second
    by (simp add: delete_image_def ObjectId_second ObjectId_bob store3_def cat_image_def
        sneaky_image_def cat_edit_def find_one_def delete_many_def os_remove_def
        path_eval Let_def)
  have "files store2 (resolve (''static/processed/'' @ out_id @ ''.jpg'')) = Some [3, 2, 1]"
    by (simp add: store2_def path_eval)
  moreover have "edit_edited_url cat_edit = ''/static/processed/'' @ out_id @ ''.jpg''"
    by (simp add: cat_edit_def)
  ultimately show ?thesis
    using edit_cat_by_alice upload_sneaky_by_bob del by simp
qed

text \<open>
  The same with the uploader's own edit: the name sent at upload is the name the
  later edit of that upload draws for its derived file, so the delete removes the
  derived file of the deleted image's own edit.
\<close>

lemma delete_image_removes_own_derived_file:
  "fst (upload_image upload_env2 sneaky_file bob_id store1) = Inr r
   \<Longrightarrow> s1 = snd (upload_image upload_env2 sneaky_file bob_id store1)
   \<Longrightarrow> s2 = snd (edit_image edit_env2 second_id ''style'' 10 bob_id s1)
   \<Longrightarrow> fst (edit_image edit_env2 second_id ''style'' 10 bob_id s1)
         = Inr (''/static/processed/'' @ out_id @ ''.jpg'')
       \<and> map edit_image_id (edits s2) = [Oid second_id]
       \<and> files s2 (resolve (''static/processed/'' @ out_id @ ''.jpg'')) = Some [9]
       \<and> fst (delete_image None second_id bob_id s2) = Inr ''deleted''
       \<and> files (snd (delete_image None second_id bob_id s2))
            (resolve (''static/processed/'' @ out_id @ ''.jpg'')) = None"
  using cat_neq_second
  by (simp add: upload_image_def ObjectId_bob sneaky_file_def upload_env2_def write_file_def
      path_eval insert_one_def store1_def cat_image_def
      edit_image_def ObjectId_second find_one_def process_image_def prompts_def
      edit_env2_def good_api_def delete_image_def delete_many_def os_remove_def
      fits_int64_def Let_def)

text \<open>
  What does hold: a successful delete changes no file but the one the stored name
  resolves to, and for a plain name that file lies in the uploads directory, so
  every file of the processed area is as it was.
\<close>

lemma split_path_plain: "CHR ''/'' \<notin> set f \<Longrightarrow> split_path acc f = [rev acc @ f]"
  by (induction f arbitrary: acc) auto

lemma resolve_upload_plain:
  "plain_name f \<Longrightarrow> resolve (path_join UPLOAD_DIR f) = (False, [''static'', ''uploads'', f])"
  by (cases f)
     (auto simp: plain_name_def path_join_def UPLOAD_DIR_def STATIC_DIR_def resolve_def
                 walk_def split_path_plain)

lemma resolve_processed_plain:
  "plain_name f \<Longrightarrow> resolve (path_join EDIT_DIR f) = (False, [''static'', ''processed'', f])"
  by (cases f)
     (auto simp: plain_name_def path_join_def EDIT_DIR_def STATIC_DIR_def resolve_def
                 walk_def split_path_plain)

lemma delete_image_frame:
  assumes "ObjectId image_id = Some i" and "ObjectId current_user = Some u"
    and "find_one (\<lambda>d. img_oid d = i \<and> img_user_id d = u) (images s) = Some d"
  shows "loc \<noteq> resolve (path_join UPLOAD_DIR (img_filename d)) \<Longrightarrow>
           files (snd (delete_image rm_fault image_id current_user s)) loc = files s loc"
    and "plain_name (img_filename d) \<Longrightarrow> plain_name n \<Longrightarrow>
           files (snd (delete_image rm_fault image_id current_user s)) (resolve (path_join EDIT_DIR n))
             = files s (resolve (path_join EDIT_DIR n))"
proof -
  show frame: "files (snd (delete_image rm_fault image_id current_user s)) loc = files s loc"
    if "loc \<noteq> resolve (path_join UPLOAD_DIR (img_filename d))" for loc
    using assms that
    by (auto simp: delete_image_def os_remove_def Let_def split: option.splits error.splits)
  assume "plain_name (img_filename d)" and "plain_name n"
  then have "resolve (path_join EDIT_DIR n) \<noteq> resolve (path_join UPLOAD_DIR (img_filename d))"
    by (simp add: resolve_upload_plain resolve_processed_plain)
  then show "files (snd (delete_image rm_fault image_id current_user s)) (resolve (path_join EDIT_DIR n))
             = files s (resolve (path_join EDIT_DIR n))"
    by (rule frame)
qed

end
